theory Spec2Isabelle
  imports Complex_Main "HOL-Library.Product_Lexorder" "HOL-Library.Multiset" "HOL-Library.AList"
begin

section \<open>Vehicle alert system: data model\<close>

text \<open>
  The alert levels are the three strings \<^verbatim>\<open>'high'\<close>, \<^verbatim>\<open>'medium'\<close> and \<^verbatim>\<open>'low'\<close>
  that \<^verbatim>\<open>_determine_alert_level\<close> returns; its fourth result, \<^verbatim>\<open>None\<close>, is the
  \<open>None\<close> of \<open>level option\<close>. Probabilities and thresholds are Python floats; the code only
  compares them, and a comparison of two floats is the comparison of the numbers they denote,
  so they are modelled as reals (NaN, which compares false with everything, is outside the
  model). A \<^verbatim>\<open>datetime\<close> is the number of microseconds since the start of the calendar,
  a \<^verbatim>\<open>timedelta(minutes=m)\<close> is \<open>m * 60000000\<close> microseconds.
\<close>

datatype level = Low | Medium | High

type_synonym datetime = int

definition timedelta_minutes :: "int \<Rightarrow> int" where
  "timedelta_minutes m = m * 60000000"

definition timedelta_days :: "int \<Rightarrow> int" where
  "timedelta_days d = d * 86400000000"

definition hour :: "datetime \<Rightarrow> int" where
  "hour t = (t div 3600000000) mod 24"

record alert_thresholds =
  high :: real
  medium :: real
  low :: real

record alert_notification_settings =
  display_alerts :: bool
  enable_sound :: bool
  enable_mobile_notifications :: bool
  snooze_duration_minutes :: int

record alert_config_t =
  alert_thresholds :: alert_thresholds
  notification_settings :: alert_notification_settings
  component_priorities :: "(string \<times> int) list"

text \<open>The dictionary built by \<^verbatim>\<open>_create_default_alert_config\<close>.\<close>

definition default_alert_config :: alert_config_t where
  "default_alert_config =
     \<lparr> alert_thresholds = \<lparr> high = 0.7, medium = 0.4, low = 0.2 \<rparr>,
       notification_settings =
         \<lparr> display_alerts = True, enable_sound = True,
           enable_mobile_notifications = False, snooze_duration_minutes = 60 \<rparr>,
       component_priorities =
         [(''engine'', 5), (''brakes'', 5), (''transmission'', 4),
          (''electrical'', 3), (''battery'', 2)] \<rparr>"

text \<open>An alert is the dictionary built in \<^verbatim>\<open>process_telemetry_data\<close>; the key
  \<^verbatim>\<open>'snoozed_until'\<close> is absent until \<^verbatim>\<open>snooze_alert\<close> stores it.\<close>

record alert =
  component :: string
  probability :: real
  alert_level :: level
  priority :: int
  timestamp :: datetime
  message :: string
  snoozed_until :: "datetime option"

section \<open>Classification\<close>

text \<open>\<^verbatim>\<open>VehicleAlertSystem._determine_alert_level\<close>.\<close>

definition determine_alert_level :: "alert_config_t \<Rightarrow> real \<Rightarrow> level option" where
  "determine_alert_level cfg p =
     (let thresholds = alert_thresholds cfg in
      if p \<ge> high thresholds then Some High
      else if p \<ge> medium thresholds then Some Medium
      else if p \<ge> low thresholds then Some Low
      else None)"

text \<open>The ordering None < Low < Medium < High of the classified levels, as a number.\<close>

fun level_rank :: "level option \<Rightarrow> nat" where
  "level_rank None = 0"
| "level_rank (Some Low) = 1"
| "level_rank (Some Medium) = 2"
| "level_rank (Some High) = 3"

section \<open>Message generation\<close>

text \<open>
  Two operations of Python's text formatting are taken as parameters, since no claim depends
  on what they print: \<^verbatim>\<open>str.title()\<close> and the format \<^verbatim>\<open>{:.1%}\<close> of a float; so is
  \<^verbatim>\<open>messaging.send\<close> of the Firebase SDK, which is \<open>False\<close> where the call raises.
\<close>

record externals =
  str_title :: "string \<Rightarrow> string"
  format_percent :: "real \<Rightarrow> string"
  messaging_send :: "string \<Rightarrow> string \<Rightarrow> string \<Rightarrow> bool"

definition replace_underscore :: "string \<Rightarrow> string" where
  "replace_underscore s = map (\<lambda>c. if c = CHR ''_'' then CHR '' '' else c) s"

text \<open>\<^verbatim>\<open>VehicleAlertSystem._generate_alert_message\<close>.\<close>

definition generate_alert_message :: "externals \<Rightarrow> string \<Rightarrow> level \<Rightarrow> real \<Rightarrow> string" where
  "generate_alert_message ext cname lvl p =
     (let urgency = (case lvl of
            High \<Rightarrow> ''Urgent service required! ''
          | Medium \<Rightarrow> ''Service recommended. ''
          | Low \<Rightarrow> ''Monitor condition. '');
          component_name = str_title ext (replace_underscore cname);
          msg = urgency @ component_name @ '' issue detected. '';
          msg = msg @ ''Potential failure risk: '' @ format_percent ext p @ ''. ''
      in if lvl = High then msg @ ''Please visit a service center immediately.''
         else if lvl = Medium then msg @ ''Schedule service within the next week.''
         else msg @ ''Check during your next maintenance visit.'')"

section \<open>The alert state store\<close>

text \<open>
  \<^verbatim>\<open>process_telemetry_data\<close> stores one and the same dictionary object under
  \<^verbatim>\<open>current_alerts[component]\<close>, in \<^verbatim>\<open>alert_history\<close> and in the list it returns, and
  \<^verbatim>\<open>snooze_alert\<close> writes into the object it finds under \<^verbatim>\<open>current_alerts\<close>. The
  objects therefore live in a store, \<open>objects\<close>, addressed by their index; a new object gets
  the next index. \<^verbatim>\<open>current_alerts\<close> is a dictionary whose order of insertion is read
  by \<^verbatim>\<open>get_current_alerts\<close>, so it is an association list: \<open>AList.update\<close> replaces the
  value of a present key in place and appends an absent one, as a Python dictionary does.

  A model is the function from the scaled features to \<^verbatim>\<open>predict_proba(...)[0, 1]\<close>, a
  scaler is \<^verbatim>\<open>transform\<close>; both are \<open>None\<close> where the call raises, which the
  \<^verbatim>\<open>except\<close> clause of the loop body catches.
\<close>

type_synonym ref = nat

type_synonym features = "(string \<times> real) list"

record vehicle_alert_system =
  models :: "string \<rightharpoonup> (real list \<Rightarrow> real option)"
  scalers :: "string \<rightharpoonup> (features \<Rightarrow> real list option)"
  alert_config :: alert_config_t
  objects :: "alert list"
  current_alerts :: "(string \<times> ref) list"
  alert_history :: "ref list"

text \<open>The state after \<^verbatim>\<open>__init__\<close>, when the models, the scalers and the configuration
  have been loaded.\<close>

definition init_vehicle_alert_system ::
  "(string \<rightharpoonup> (real list \<Rightarrow> real option)) \<Rightarrow> (string \<rightharpoonup> (features \<Rightarrow> real list option))
     \<Rightarrow> alert_config_t \<Rightarrow> vehicle_alert_system" where
  "init_vehicle_alert_system m sc cfg =
     \<lparr> models = m, scalers = sc, alert_config = cfg,
       objects = [], current_alerts = [], alert_history = [] \<rparr>"

text \<open>The sort key \<^verbatim>\<open>lambda x: (-x['priority'], -x['probability'])\<close>; Python compares
  tuples lexicographically, as the order on pairs does here.\<close>

definition rank_key :: "alert \<Rightarrow> int \<times> real" where
  "rank_key x = (- priority x, - probability x)"

text \<open>\<^verbatim>\<open>sorted(alerts, key=...)\<close> on a list of alert objects. Python's \<^verbatim>\<open>sorted\<close> is a
  stable sort, and so is \<open>sort_key\<close>; a stable sort has one result only.\<close>

definition sorted_alerts :: "alert list \<Rightarrow> ref list \<Rightarrow> ref list" where
  "sorted_alerts objs alerts = sort_key (\<lambda>r. rank_key (objs ! r)) alerts"

text \<open>The body of the loop of \<^verbatim>\<open>process_telemetry_data\<close>, on the state and the list
  \<^verbatim>\<open>alerts\<close> collected so far.\<close>

definition process_component ::
  "externals \<Rightarrow> datetime \<Rightarrow> vehicle_alert_system \<times> ref list \<Rightarrow> string \<times> features
     \<Rightarrow> vehicle_alert_system \<times> ref list" where
  "process_component ext current_time acc item =
     (let (s, alerts) = acc; (cname, data) = item in
      case (models s cname, scalers s cname) of
        (Some model, Some scaler) \<Rightarrow>
          (case scaler data of
             None \<Rightarrow> (s, alerts)
           | Some features_scaled \<Rightarrow>
               (case model features_scaled of
                  None \<Rightarrow> (s, alerts)
                | Some failure_prob \<Rightarrow>
                    (case determine_alert_level (alert_config s) failure_prob of
                       Some lvl \<Rightarrow>
                         (let a = \<lparr> component = cname,
                                    probability = failure_prob,
                                    alert_level = lvl,
                                    priority =
                                      (case map_of (component_priorities (alert_config s)) cname of
                                         Some v \<Rightarrow> v | None \<Rightarrow> 1),
                                    timestamp = current_time,
                                    message = generate_alert_message ext cname lvl failure_prob,
                                    snoozed_until = None \<rparr>;
                              r = length (objects s)
                          in (s\<lparr> objects := objects s @ [a],
                                 current_alerts := AList.update cname r (current_alerts s),
                                 alert_history := alert_history s @ [r] \<rparr>,
                              alerts @ [r]))
                     | None \<Rightarrow>
                         if map_of (current_alerts s) cname \<noteq> None
                         then (s\<lparr> current_alerts := AList.delete cname (current_alerts s) \<rparr>,
                               alerts)
                         else (s, alerts))))
      | _ \<Rightarrow> (s, alerts))"

text \<open>\<^verbatim>\<open>VehicleAlertSystem.process_telemetry_data\<close>; the telemetry dictionary is the list
  of its items, \<^verbatim>\<open>datetime.now()\<close> is the argument \<open>current_time\<close>.\<close>

definition process_telemetry_data ::
  "externals \<Rightarrow> vehicle_alert_system \<Rightarrow> (string \<times> features) list \<Rightarrow> datetime
     \<Rightarrow> vehicle_alert_system \<times> ref list" where
  "process_telemetry_data ext s telemetry_data current_time =
     (let (s', alerts) = foldl (process_component ext current_time) (s, []) telemetry_data
      in (s', sorted_alerts (objects s') alerts))"

text \<open>\<^verbatim>\<open>VehicleAlertSystem.get_current_alerts\<close>.\<close>

definition get_current_alerts :: "vehicle_alert_system \<Rightarrow> ref list" where
  "get_current_alerts s = sorted_alerts (objects s) (map snd (current_alerts s))"

text \<open>\<^verbatim>\<open>VehicleAlertSystem.snooze_alert\<close>, with \<^verbatim>\<open>datetime.now()\<close> as \<open>now\<close>.\<close>

definition snooze_alert ::
  "vehicle_alert_system \<Rightarrow> string \<Rightarrow> datetime \<Rightarrow> vehicle_alert_system \<times> bool" where
  "snooze_alert s cname now =
     (case map_of (current_alerts s) cname of
        Some r \<Rightarrow>
          (let snooze_minutes = snooze_duration_minutes (notification_settings (alert_config s))
           in (s\<lparr> objects := (objects s)
                     [r := (objects s ! r)
                        \<lparr> snoozed_until := Some (now + timedelta_minutes snooze_minutes) \<rparr>] \<rparr>,
               True))
      | None \<Rightarrow> (s, False))"

text \<open>\<^verbatim>\<open>VehicleAlertSystem.get_alert_history\<close>.\<close>

definition get_alert_history :: "vehicle_alert_system \<Rightarrow> int \<Rightarrow> datetime \<Rightarrow> ref list" where
  "get_alert_history s days now =
     (let cutoff_time = now - timedelta_days days
      in filter (\<lambda>r. timestamp (objects s ! r) > cutoff_time) (alert_history s))"

text \<open>What a reader of a list of alert objects sees: the dictionaries behind the references.\<close>

definition deref :: "vehicle_alert_system \<Rightarrow> ref list \<Rightarrow> alert list" where
  "deref s rs = map (\<lambda>r. objects s ! r) rs"

text \<open>
  The states the system can be in: the initial one, and those that a telemetry evaluation,
  a snooze or a change of the configuration (\<^verbatim>\<open>update_alert_config\<close>, here any new
  configuration) lead to.
\<close>

inductive reachable :: "externals \<Rightarrow> vehicle_alert_system \<Rightarrow> bool" where
  reach_init: "reachable ext (init_vehicle_alert_system m sc cfg)"
| reach_process:
    "reachable ext s \<Longrightarrow> reachable ext (fst (process_telemetry_data ext s telemetry_data t))"
| reach_snooze: "reachable ext s \<Longrightarrow> reachable ext (fst (snooze_alert s cname t))"
| reach_config: "reachable ext s \<Longrightarrow> reachable ext (s\<lparr> alert_config := cfg \<rparr>)"

section \<open>Mobile alert system\<close>

text \<open>
  The configuration dictionary of \<^verbatim>\<open>MobileAlertSystem\<close>, section by section. Its section
  \<^verbatim>\<open>notification_settings\<close> is the field \<open>mobile_notification_settings\<close> here, the
  dictionary \<^verbatim>\<open>self.alert_history\<close> is the field \<open>notification_history\<close>, and the keys
  \<^verbatim>\<open>level\<close>, \<^verbatim>\<open>sent_time\<close>, \<^verbatim>\<open>message\<close> of its entries are \<open>sent_level\<close>,
  \<open>sent_time\<close>, \<open>sent_message\<close>: the names are taken by the vehicle alert system.
\<close>

record mobile_notification_settings_t =
  enable_mobile_alerts :: bool
  high_priority_cooldown_minutes :: int
  medium_priority_cooldown_minutes :: int
  low_priority_cooldown_minutes :: int
  quiet_hours_start :: int
  quiet_hours_end :: int
  respect_quiet_hours :: bool
  override_quiet_hours_for_high_priority :: bool

record notification_services_t =
  use_firebase :: bool
  use_sms :: bool
  use_email :: bool

record sms_settings_t =
  api_key :: string
  from_number :: string

record email_settings_t =
  smtp_server :: string
  smtp_port :: int
  username :: string
  password :: string
  from_address :: string

record mobile_config =
  mobile_notification_settings :: mobile_notification_settings_t
  notification_services :: notification_services_t
  sms_settings :: sms_settings_t
  email_settings :: email_settings_t

text \<open>The dictionary built by \<^verbatim>\<open>MobileAlertSystem._create_default_config\<close>.\<close>

definition default_mobile_config :: mobile_config where
  "default_mobile_config =
     \<lparr> mobile_notification_settings =
         \<lparr> enable_mobile_alerts = True,
           high_priority_cooldown_minutes = 30,
           medium_priority_cooldown_minutes = 120,
           low_priority_cooldown_minutes = 360,
           quiet_hours_start = 22,
           quiet_hours_end = 7,
           respect_quiet_hours = True,
           override_quiet_hours_for_high_priority = True \<rparr>,
       notification_services =
         \<lparr> use_firebase = False, use_sms = False, use_email = False \<rparr>,
       sms_settings = \<lparr> api_key = [], from_number = [] \<rparr>,
       email_settings =
         \<lparr> smtp_server = [], smtp_port = 587, username = [], password = [],
           from_address = ''vehicle-alerts@example.com'' \<rparr> \<rparr>"

text \<open>Of the information registered with a device the code reads two optional keys.\<close>

record device_info =
  phone_number :: "string option"
  email :: "string option"

record notification_record =
  sent_level :: level
  sent_time :: datetime
  sent_message :: string

record mobile_alert_system =
  config :: mobile_config
  firebase_initialized :: bool
  registered_devices :: "(string \<times> device_info) list"
  notification_history :: "string \<rightharpoonup> notification_record"

definition init_mobile_alert_system :: "mobile_config \<Rightarrow> mobile_alert_system" where
  "init_mobile_alert_system cfg =
     \<lparr> config = cfg, firebase_initialized = False, registered_devices = [],
       notification_history = Map.empty \<rparr>"

text \<open>\<^verbatim>\<open>MobileAlertSystem._check_quiet_hours\<close>.\<close>

definition check_quiet_hours :: "mobile_alert_system \<Rightarrow> datetime \<Rightarrow> bool" where
  "check_quiet_hours m current_time =
     (if \<not> respect_quiet_hours (mobile_notification_settings (config m)) then False
      else
        (let quiet_start = quiet_hours_start (mobile_notification_settings (config m));
             quiet_end = quiet_hours_end (mobile_notification_settings (config m));
             current_hour = hour current_time
         in if quiet_start > quiet_end
            then current_hour \<ge> quiet_start \<or> current_hour < quiet_end
            else current_hour \<ge> quiet_start \<and> current_hour < quiet_end))"

text \<open>\<^verbatim>\<open>MobileAlertSystem._should_send_alert\<close>.\<close>

definition should_send_alert ::
  "mobile_alert_system \<Rightarrow> string \<Rightarrow> level \<Rightarrow> datetime \<Rightarrow> bool \<Rightarrow> bool" where
  "should_send_alert m cname lvl current_time in_quiet_hours =
     (if in_quiet_hours
         \<and> \<not> (lvl = High
               \<and> override_quiet_hours_for_high_priority (mobile_notification_settings (config m)))
      then False
      else
        (case notification_history m cname of
           Some last_alert \<Rightarrow>
             (let sent = sent_time last_alert;
                  last_level = sent_level last_alert
              in if (lvl = High \<and> last_level \<noteq> High) \<or> (lvl = Medium \<and> last_level = Low)
                 then True
                 else
                   (let cooldown_minutes =
                          (if lvl = High
                           then high_priority_cooldown_minutes
                                  (mobile_notification_settings (config m))
                           else if lvl = Medium
                           then medium_priority_cooldown_minutes
                                  (mobile_notification_settings (config m))
                           else low_priority_cooldown_minutes
                                  (mobile_notification_settings (config m)));
                        cooldown_time = sent + timedelta_minutes cooldown_minutes
                    in current_time \<ge> cooldown_time))
         | None \<Rightarrow> True))"

text \<open>\<^verbatim>\<open>_format_notification_title\<close> and \<^verbatim>\<open>_format_notification_message\<close>.\<close>

definition format_notification_title :: "externals \<Rightarrow> alert \<Rightarrow> string" where
  "format_notification_title ext a =
     (let level_prefix = (case alert_level a of
            High \<Rightarrow> ''URGENT: '' | Medium \<Rightarrow> ''WARNING: '' | Low \<Rightarrow> ''NOTICE: '');
          component_name = str_title ext (replace_underscore (component a))
      in level_prefix @ component_name @ '' Issue Detected'')"

definition format_notification_message :: "alert \<Rightarrow> string" where
  "format_notification_message a = message a"

text \<open>
  The three channels. \<^verbatim>\<open>_send_firebase_notification\<close> sends to the devices in turn and
  returns False at the first \<^verbatim>\<open>messaging.send\<close> that raises; the SMS and the email
  channel only log what they would send, so they succeed as soon as their settings are
  complete and one device has an address.
\<close>

datatype channel = Push | Sms | Email

definition send_firebase_notification ::
  "externals \<Rightarrow> mobile_alert_system \<Rightarrow> string \<Rightarrow> string \<Rightarrow> alert \<Rightarrow> bool" where
  "send_firebase_notification ext m title msg a =
     (if \<not> firebase_initialized m then False
      else if registered_devices m = [] then False
      else list_all (\<lambda>(device_token, info). messaging_send ext device_token title msg)
             (registered_devices m))"

definition send_sms_notification :: "mobile_alert_system \<Rightarrow> string \<Rightarrow> alert \<Rightarrow> bool" where
  "send_sms_notification m msg a =
     (if api_key (sms_settings (config m)) = [] \<or> from_number (sms_settings (config m)) = []
      then False
      else
        (let phone_numbers = List.map_filter (\<lambda>(device_token, info). phone_number info)
                               (registered_devices m)
         in if phone_numbers = [] then False else True))"

definition send_email_notification ::
  "mobile_alert_system \<Rightarrow> string \<Rightarrow> string \<Rightarrow> alert \<Rightarrow> bool" where
  "send_email_notification m title msg a =
     (if smtp_server (email_settings (config m)) = [] then False
      else
        (let email_addresses = List.map_filter (\<lambda>(device_token, info). email info)
                                 (registered_devices m)
         in if email_addresses = [] then False else True))"

text \<open>
  \<^verbatim>\<open>MobileAlertSystem._send_notification\<close> returns nothing; what it does is the list of
  the channels it called, each with what the call returned, and the value of its local
  variable \<^verbatim>\<open>success\<close>, which exists only when some service is enabled. The statement
  \<^verbatim>\<open>success = success or self._send_sms_notification(...)\<close> calls the channel only when
  \<^verbatim>\<open>success\<close> is still False.
\<close>

record send_result =
  attempted :: "(channel \<times> bool) list"
  success :: "bool option"

definition send_notification :: "externals \<Rightarrow> mobile_alert_system \<Rightarrow> alert \<Rightarrow> send_result" where
  "send_notification ext m a =
     (let msg = format_notification_message a;
          title = format_notification_title ext a;
          services = notification_services (config m);
          any_service_enabled =
            ((use_firebase services \<and> firebase_initialized m)
             \<or> use_sms services \<or> use_email services)
      in if any_service_enabled then
           (let st0 = (False, []);
                st1 = (if use_firebase services \<and> firebase_initialized m
                       then (let r = send_firebase_notification ext m title msg a
                             in (r, snd st0 @ [(Push, r)]))
                       else st0);
                st2 = (if use_sms services
                       then (if fst st1 then st1
                             else (let r = send_sms_notification m msg a
                                   in (r, snd st1 @ [(Sms, r)])))
                       else st1);
                st3 = (if use_email services
                       then (if fst st2 then st2
                             else (let r = send_email_notification m title msg a
                                   in (r, snd st2 @ [(Email, r)])))
                       else st2)
            in \<lparr> attempted = snd st3, success = Some (fst st3) \<rparr>)
         else \<lparr> attempted = [], success = None \<rparr>)"

text \<open>The body of the loop of \<^verbatim>\<open>_process_alerts\<close>, on the state and the results of the
  sends made so far, and \<^verbatim>\<open>_process_alerts\<close> itself, with \<^verbatim>\<open>datetime.now()\<close> as
  \<open>current_time\<close>.\<close>

definition process_alert ::
  "externals \<Rightarrow> datetime \<Rightarrow> bool \<Rightarrow> mobile_alert_system \<times> send_result list \<Rightarrow> alert
     \<Rightarrow> mobile_alert_system \<times> send_result list" where
  "process_alert ext current_time in_quiet_hours acc a =
     (let (m, sends) = acc in
      if should_send_alert m (component a) (alert_level a) current_time in_quiet_hours
      then (m\<lparr> notification_history := (notification_history m)
                  (component a \<mapsto>
                     \<lparr> sent_level = alert_level a, sent_time = current_time,
                       sent_message = message a \<rparr>) \<rparr>,
            sends @ [send_notification ext m a])
      else (m, sends))"

definition process_alerts ::
  "externals \<Rightarrow> mobile_alert_system \<Rightarrow> alert list \<Rightarrow> datetime
     \<Rightarrow> mobile_alert_system \<times> send_result list" where
  "process_alerts ext m alerts current_time =
     (let in_quiet_hours = check_quiet_hours m current_time
      in foldl (process_alert ext current_time in_quiet_hours) (m, []) alerts)"

section \<open>Auxiliary definitions\<close>

text \<open>
  The invariant of the alert state store: the keys of \<open>current_alerts\<close> are distinct, and
  each refers to an object of the store whose \<open>component\<close> is the key.
\<close>

definition store_inv :: "vehicle_alert_system \<Rightarrow> bool" where
  "store_inv s \<longleftrightarrow>
     distinct (map fst (current_alerts s)) \<and>
     (\<forall>k r. map_of (current_alerts s) k = Some r \<longrightarrow>
        r < length (objects s) \<and> component (objects s ! r) = k)"

text \<open>Concrete inputs, on which the theorems below are evaluated.\<close>

definition example_externals :: externals where
  "example_externals =
     \<lparr> str_title = (\<lambda>s. s), format_percent = (\<lambda>p. []),
       messaging_send = (\<lambda>device_token title body. True) \<rparr>"

definition example_scaler :: "features \<Rightarrow> real list option" where
  "example_scaler d = Some (map snd d)"

definition example_model :: "real list \<Rightarrow> real option" where
  "example_model fs = (case fs of [] \<Rightarrow> None | p # _ \<Rightarrow> Some p)"

definition example_system :: vehicle_alert_system where
  "example_system =
     init_vehicle_alert_system [''engine'' \<mapsto> example_model] [''engine'' \<mapsto> example_scaler]
       default_alert_config"

text \<open>The state after one evaluation in which the engine gets the probability 0.75.\<close>

definition example_alerting :: vehicle_alert_system where
  "example_alerting =
     fst (process_telemetry_data example_externals example_system
            [(''engine'', [(''risk'', 0.75)])] 0)"

definition example_objects :: "alert list" where
  "example_objects =
     [\<lparr> component = ''engine'', probability = 0.6, alert_level = Medium, priority = 5,
        timestamp = 0, message = [], snoozed_until = None \<rparr>,
      \<lparr> component = ''brakes'', probability = 0.8, alert_level = High, priority = 5,
        timestamp = 0, message = [], snoozed_until = None \<rparr>,
      \<lparr> component = ''battery'', probability = 0.9, alert_level = High, priority = 2,
        timestamp = 0, message = [], snoozed_until = None \<rparr>]"

definition example_alert :: alert where
  "example_alert =
     \<lparr> component = ''engine'', probability = 0.5, alert_level = Medium, priority = 5,
       timestamp = 0, message = ''Service recommended.'', snoozed_until = None \<rparr>"

text \<open>SMS is the only enabled channel and its settings are empty, so it fails.\<close>

definition example_mobile_sms_unconfigured :: mobile_alert_system where
  "example_mobile_sms_unconfigured =
     init_mobile_alert_system
       (default_mobile_config
          \<lparr> notification_services :=
              \<lparr> use_firebase = False, use_sms = True, use_email = False \<rparr> \<rparr>)"

text \<open>SMS and email are enabled and configured, and one device has both addresses.\<close>

definition example_mobile_sms_email :: mobile_alert_system where
  "example_mobile_sms_email =
     \<lparr> config = default_mobile_config
         \<lparr> notification_services :=
             \<lparr> use_firebase = False, use_sms = True, use_email = True \<rparr>,
           sms_settings := \<lparr> api_key = ''key'', from_number = ''+1000000000'' \<rparr>,
           email_settings := (email_settings default_mobile_config)
             \<lparr> smtp_server := ''smtp.example.com'' \<rparr> \<rparr>,
       firebase_initialized = False,
       registered_devices =
         [(''mock-device-1'',
           \<lparr> phone_number = Some ''+1234567890'', email = Some ''driver@example.com'' \<rparr>)],
       notification_history = Map.empty \<rparr>"

text \<open>The same, with the SMS settings emptied: SMS fails, email works.\<close>

definition example_mobile_sms_fails :: mobile_alert_system where
  "example_mobile_sms_fails =
     example_mobile_sms_email
       \<lparr> config := (config example_mobile_sms_email)
           \<lparr> sms_settings := \<lparr> api_key = [], from_number = [] \<rparr> \<rparr> \<rparr>"

text \<open>A Medium notification for the engine was sent at 10 o'clock of the first day.\<close>

definition example_mobile_notified :: mobile_alert_system where
  "example_mobile_notified =
     (init_mobile_alert_system default_mobile_config)
       \<lparr> notification_history :=
           [''engine'' \<mapsto> \<lparr> sent_level = Medium, sent_time = 36000000000,
                              sent_message = ''Service recommended.'' \<rparr>] \<rparr>"

text \<open>The default configuration with \<^verbatim>\<open>respect_quiet_hours\<close> switched off.\<close>

definition example_mobile_no_quiet_hours :: mobile_alert_system where
  "example_mobile_no_quiet_hours =
     init_mobile_alert_system
       (default_mobile_config
          \<lparr> mobile_notification_settings :=
              (mobile_notification_settings default_mobile_config)
                \<lparr> respect_quiet_hours := False \<rparr> \<rparr>)"

section \<open>Properties of the classification\<close>

text \<open>
  Claim C5. The classification tests the thresholds in the order high, medium, low and returns
  the first level whose threshold the probability meets or exceeds, and no level when the
  probability is below all three; with the default thresholds 0.7, 0.4, 0.2 the probabilities
  0.75, 0.5, 0.25, 0.1 are classified High, Medium, Low and no alert.
\<close>

theorem determine_alert_level_first_met:
  "determine_alert_level cfg p =
     (if p \<ge> high (alert_thresholds cfg) then Some High
      else if p \<ge> medium (alert_thresholds cfg) then Some Medium
      else if p \<ge> low (alert_thresholds cfg) then Some Low
      else None)
   \<and> (determine_alert_level cfg p = None \<longleftrightarrow>
        p < high (alert_thresholds cfg) \<and> p < medium (alert_thresholds cfg)
        \<and> p < low (alert_thresholds cfg))
   \<and> determine_alert_level default_alert_config 0.75 = Some High
   \<and> determine_alert_level default_alert_config 0.5 = Some Medium
   \<and> determine_alert_level default_alert_config 0.25 = Some Low
   \<and> determine_alert_level default_alert_config 0.1 = None"
  by (simp add: determine_alert_level_def default_alert_config_def Let_def)

text \<open>
  Claim C10. For any threshold configuration the classification is monotone: a probability
  at least as large never gets a lower level, in the ordering None < Low < Medium < High.
\<close>

theorem determine_alert_level_mono:
  "p2 \<le> p1 \<Longrightarrow>
     level_rank (determine_alert_level cfg p2) \<le> level_rank (determine_alert_level cfg p1)"
  by (simp add: determine_alert_level_def Let_def)

theorem determine_alert_level_mono_witness:
  "(0.5::real) \<le> 0.75
   \<and> level_rank (determine_alert_level default_alert_config 0.5)
       \<le> level_rank (determine_alert_level default_alert_config 0.75)"
  using determine_alert_level_mono [of "0.5" "0.75" default_alert_config] by simp

section \<open>Ranking\<close>

lemma sorted_alerts_ordered:
  assumes "i < j" "j < length alerts"
  shows "priority (objs ! (sorted_alerts objs alerts ! i))
           > priority (objs ! (sorted_alerts objs alerts ! j))
       \<or> (priority (objs ! (sorted_alerts objs alerts ! i))
             = priority (objs ! (sorted_alerts objs alerts ! j))
          \<and> probability (objs ! (sorted_alerts objs alerts ! i))
             \<ge> probability (objs ! (sorted_alerts objs alerts ! j)))"
proof -
  let ?k = "\<lambda>r. rank_key (objs ! r)"
  let ?ys = "sorted_alerts objs alerts"
  have "sorted (map ?k ?ys)" by (simp add: sorted_alerts_def)
  moreover have "i < length (map ?k ?ys)" "j < length (map ?k ?ys)" "i \<le> j"
    using assms by (simp_all add: sorted_alerts_def)
  ultimately have "map ?k ?ys ! i \<le> map ?k ?ys ! j"
    using sorted_iff_nth_mono by blast
  then have "?k (?ys ! i) \<le> ?k (?ys ! j)"
    using assms by (simp add: sorted_alerts_def)
  then show ?thesis
    by (auto simp: rank_key_def less_eq_prod_def)
qed

lemma sorted_alerts_stable:
  "filter (\<lambda>r. priority (objs ! r) = pr \<and> probability (objs ! r) = pb) (sorted_alerts objs alerts)
   = filter (\<lambda>r. priority (objs ! r) = pr \<and> probability (objs ! r) = pb) alerts"
proof -
  have "(\<lambda>r. priority (objs ! r) = pr \<and> probability (objs ! r) = pb)
      = (\<lambda>r. rank_key (objs ! r) = (- pr, - pb))"
    by (auto simp: rank_key_def fun_eq_iff)
  then show ?thesis
    by (simp add: sorted_alerts_def sort_key_stable)
qed

lemma sorted_alerts_example: "sorted_alerts example_objects [0, 1, 2] = [1, 0, 2]"
  by (simp add: sorted_alerts_def example_objects_def rank_key_def less_eq_prod_def)

text \<open>
  Claim C9. The ranking \<^verbatim>\<open>sorted(alerts, key=lambda x: (-x['priority'], -x['probability']))\<close>
  of \<^verbatim>\<open>get_current_alerts\<close> and \<^verbatim>\<open>process_telemetry_data\<close> orders any list of alerts:
  the result is a rearrangement of the list, an alert that comes earlier has a higher
  priority or the same priority and a probability at least as high, and alerts that agree in
  priority and probability keep their original order. The alerts engine (priority 5, 0.6),
  brakes (5, 0.8), battery (2, 0.9) are ranked brakes, engine, battery.
\<close>

theorem sorted_alerts_rank:
  "mset (sorted_alerts objs alerts) = mset alerts
   \<and> (\<forall>i j. i < j \<and> j < length alerts \<longrightarrow>
         priority (objs ! (sorted_alerts objs alerts ! i))
           > priority (objs ! (sorted_alerts objs alerts ! j))
         \<or> (priority (objs ! (sorted_alerts objs alerts ! i))
               = priority (objs ! (sorted_alerts objs alerts ! j))
            \<and> probability (objs ! (sorted_alerts objs alerts ! i))
               \<ge> probability (objs ! (sorted_alerts objs alerts ! j))))
   \<and> (\<forall>pr pb.
         filter (\<lambda>r. priority (objs ! r) = pr \<and> probability (objs ! r) = pb)
           (sorted_alerts objs alerts)
         = filter (\<lambda>r. priority (objs ! r) = pr \<and> probability (objs ! r) = pb) alerts)
   \<and> get_current_alerts s = sorted_alerts (objects s) (map snd (current_alerts s))
   \<and> map (\<lambda>r. component (example_objects ! r)) (sorted_alerts example_objects [0, 1, 2])
       = [''brakes'', ''engine'', ''battery'']"
proof -
  have "mset (sorted_alerts objs alerts) = mset alerts"
    by (simp add: sorted_alerts_def)
  moreover have "map (\<lambda>r. component (example_objects ! r)) (sorted_alerts example_objects [0, 1, 2])
       = [''brakes'', ''engine'', ''battery'']"
    by (simp only: sorted_alerts_example) (simp add: example_objects_def)
  ultimately show ?thesis
    using sorted_alerts_ordered [of _ _ alerts objs] sorted_alerts_stable [of objs _ _ alerts]
    by (simp add: get_current_alerts_def)
qed

theorem sorted_alerts_rank_witness:
  "(0::nat) < 1 \<and> (1::nat) < length [0::nat, 1, 2]
   \<and> priority (example_objects ! (sorted_alerts example_objects [0, 1, 2] ! 0))
       = priority (example_objects ! (sorted_alerts example_objects [0, 1, 2] ! 1))
   \<and> probability (example_objects ! (sorted_alerts example_objects [0, 1, 2] ! 0))
       \<ge> probability (example_objects ! (sorted_alerts example_objects [0, 1, 2] ! 1))"
proof -
  have "(0::nat) < 1 \<and> (1::nat) < length [0::nat, 1, 2] \<longrightarrow>
      priority (example_objects ! (sorted_alerts example_objects [0, 1, 2] ! 0))
        > priority (example_objects ! (sorted_alerts example_objects [0, 1, 2] ! 1))
      \<or> (priority (example_objects ! (sorted_alerts example_objects [0, 1, 2] ! 0))
            = priority (example_objects ! (sorted_alerts example_objects [0, 1, 2] ! 1))
         \<and> probability (example_objects ! (sorted_alerts example_objects [0, 1, 2] ! 0))
            \<ge> probability (example_objects ! (sorted_alerts example_objects [0, 1, 2] ! 1)))"
    using sorted_alerts_rank [of example_objects "[0, 1, 2]"] by blast
  then show ?thesis
    by (simp only: sorted_alerts_example) (simp add: example_objects_def)
qed

section \<open>The alert state store: one current alert per component, recovery\<close>

lemma store_inv_init: "store_inv (init_vehicle_alert_system m sc cfg)"
  by (simp add: store_inv_def init_vehicle_alert_system_def)

lemma store_inv_add:
  assumes "store_inv s" and "component a = c"
  shows "store_inv (s\<lparr> objects := objects s @ [a],
           current_alerts := AList.update c (length (objects s)) (current_alerts s),
           alert_history := h \<rparr>)"
proof -
  have d: "distinct (map fst (AList.update c (length (objects s)) (current_alerts s)))"
    using assms(1) by (simp add: store_inv_def AList.distinct_update)
  have e: "r < length (objects s @ [a]) \<and> component ((objects s @ [a]) ! r) = k"
    if "map_of (AList.update c (length (objects s)) (current_alerts s)) k = Some r" for k r
  proof (cases "k = c")
    case True
    then have "r = length (objects s)" using that by (simp add: AList.update_conv')
    then show ?thesis using True assms(2) by simp
  next
    case False
    then have "map_of (current_alerts s) k = Some r"
      using that by (simp add: AList.update_conv')
    then have "r < length (objects s) \<and> component (objects s ! r) = k"
      using assms(1) unfolding store_inv_def by blast
    then show ?thesis by (simp add: nth_append)
  qed
  show ?thesis unfolding store_inv_def using d e by simp
qed

lemma store_inv_del:
  assumes "store_inv s"
  shows "store_inv (s\<lparr> current_alerts := AList.delete c (current_alerts s) \<rparr>)"
proof -
  have d: "distinct (map fst (AList.delete c (current_alerts s)))"
    using assms by (simp add: store_inv_def AList.distinct_delete)
  have e: "r < length (objects s) \<and> component (objects s ! r) = k"
    if "map_of (AList.delete c (current_alerts s)) k = Some r" for k r
  proof -
    have "map_of (current_alerts s) k = Some r"
      using that by (cases "k = c") (simp_all add: AList.delete_conv')
    then show ?thesis using assms unfolding store_inv_def by blast
  qed
  show ?thesis unfolding store_inv_def using d e by simp
qed

lemma store_inv_process_component:
  assumes "store_inv s"
  shows "store_inv (fst (process_component ext t (s, alerts) (c, d)))"
  using assms
  by (simp add: process_component_def Let_def store_inv_add store_inv_del
      split: option.splits)

lemma store_inv_foldl:
  "store_inv (fst acc) \<Longrightarrow> store_inv (fst (foldl (process_component ext t) acc tel))"
proof (induction tel arbitrary: acc)
  case Nil
  then show ?case by simp
next
  case (Cons x xs)
  obtain s alerts where acc: "acc = (s, alerts)" by (cases acc)
  obtain c d where x: "x = (c, d)" by (cases x)
  have "store_inv (fst (process_component ext t acc x))"
    using Cons.prems store_inv_process_component [of s ext t alerts c d] by (simp add: acc x)
  then show ?case using Cons.IH by simp
qed

lemma store_inv_process_telemetry_data:
  "store_inv s \<Longrightarrow> store_inv (fst (process_telemetry_data ext s tel t))"
  using store_inv_foldl [of "(s, [])" ext t tel]
  by (cases "foldl (process_component ext t) (s, []) tel") (simp add: process_telemetry_data_def)

lemma store_inv_snooze_alert:
  "store_inv s \<Longrightarrow> store_inv (fst (snooze_alert s c t))"
  by (auto simp: snooze_alert_def store_inv_def Let_def nth_list_update
      simp del: map_of_eq_Some_iff split: option.splits)

lemma store_inv_config: "store_inv s \<Longrightarrow> store_inv (s\<lparr> alert_config := cfg \<rparr>)"
  by (simp add: store_inv_def)

lemma reachable_store_inv: "reachable ext s \<Longrightarrow> store_inv s"
  by (induction rule: reachable.induct)
    (simp_all add: store_inv_init store_inv_process_telemetry_data store_inv_snooze_alert
      store_inv_config)

lemma store_inv_components:
  assumes "store_inv s"
  shows "map (\<lambda>r. component (objects s ! r)) (map snd (current_alerts s)) = map fst (current_alerts s)"
proof -
  have "\<And>k r. (k, r) \<in> set (current_alerts s) \<Longrightarrow> component (objects s ! r) = k"
    using assms by (simp add: store_inv_def)
  then show ?thesis by (auto simp: comp_def)
qed

lemma get_current_alerts_components:
  assumes "store_inv s"
  shows "mset (map component (deref s (get_current_alerts s))) = mset (map fst (current_alerts s))"
proof -
  let ?f = "\<lambda>r. component (objects s ! r)"
  have "map component (deref s (get_current_alerts s)) = map ?f (get_current_alerts s)"
    by (simp add: deref_def)
  then have "mset (map component (deref s (get_current_alerts s)))
      = image_mset ?f (mset (get_current_alerts s))"
    by simp
  also have "mset (get_current_alerts s) = mset (map snd (current_alerts s))"
    by (simp add: get_current_alerts_def sorted_alerts_def)
  also have "image_mset ?f (mset (map snd (current_alerts s)))
      = mset (map ?f (map snd (current_alerts s)))"
    by (simp only: mset_map)
  also have "map ?f (map snd (current_alerts s)) = map fst (current_alerts s)"
    by (rule store_inv_components [OF assms])
  finally show ?thesis .
qed

lemma get_current_alerts_distinct:
  assumes "store_inv s"
  shows "distinct (map component (deref s (get_current_alerts s)))"
  using get_current_alerts_components [OF assms] assms mset_eq_imp_distinct_iff
  unfolding store_inv_def by blast

lemma process_component_frame:
  "models (fst (process_component ext t acc x)) = models (fst acc)
   \<and> scalers (fst (process_component ext t acc x)) = scalers (fst acc)
   \<and> alert_config (fst (process_component ext t acc x)) = alert_config (fst acc)"
  by (cases acc, cases x) (simp add: process_component_def Let_def split: option.splits)

lemma foldl_process_component_frame:
  "models (fst (foldl (process_component ext t) acc tel)) = models (fst acc)
   \<and> scalers (fst (foldl (process_component ext t) acc tel)) = scalers (fst acc)
   \<and> alert_config (fst (foldl (process_component ext t) acc tel)) = alert_config (fst acc)"
  by (induction tel arbitrary: acc) (simp_all add: process_component_frame)

lemma process_component_other:
  "c \<noteq> fst x \<Longrightarrow>
     map_of (current_alerts (fst (process_component ext t acc x))) c
       = map_of (current_alerts (fst acc)) c"
  by (cases acc, cases x)
    (simp add: process_component_def Let_def AList.update_conv' AList.delete_conv'
      split: option.splits)

lemma foldl_process_component_other:
  "c \<notin> fst ` set tel \<Longrightarrow>
     map_of (current_alerts (fst (foldl (process_component ext t) acc tel))) c
       = map_of (current_alerts (fst acc)) c"
  by (induction tel arbitrary: acc) (simp_all add: process_component_other)

lemma process_component_recover:
  assumes "models (fst acc) c = Some model" "scalers (fst acc) c = Some scaler"
    "scaler d = Some fs" "model fs = Some p"
    "determine_alert_level (alert_config (fst acc)) p = None"
  shows "map_of (current_alerts (fst (process_component ext t acc (c, d)))) c = None"
  using assms
  by (cases acc) (simp add: process_component_def Let_def AList.delete_conv')

lemma process_telemetry_data_recover:
  assumes "distinct (map fst tel)" "(c, d) \<in> set tel"
    "models s c = Some model" "scalers s c = Some scaler"
    "scaler d = Some fs" "model fs = Some p"
    "determine_alert_level (alert_config s) p = None"
  shows "map_of (current_alerts (fst (process_telemetry_data ext s tel t))) c = None"
proof -
  let ?f = "process_component ext t"
  obtain xs ys where tel: "tel = xs @ (c, d) # ys"
    using split_list [OF assms(2)] by blast
  have notin: "c \<notin> fst ` set ys"
    using assms(1) unfolding tel by auto
  let ?acc = "foldl ?f (s, []) xs"
  have fr: "models (fst ?acc) = models s" "scalers (fst ?acc) = scalers s"
    "alert_config (fst ?acc) = alert_config s"
    using foldl_process_component_frame [of ext t "(s, [])" xs] by simp_all
  have "map_of (current_alerts (fst (?f ?acc (c, d)))) c = None"
    by (rule process_component_recover [where model = model and scaler = scaler and fs = fs and p = p])
      (simp_all add: fr assms)
  then have "map_of (current_alerts (fst (foldl ?f (?f ?acc (c, d)) ys))) c = None"
    using foldl_process_component_other [OF notin] by simp
  then have "map_of (current_alerts (fst (foldl ?f (s, []) tel))) c = None"
    by (simp add: tel)
  then show ?thesis
    by (cases "foldl ?f (s, []) tel") (simp add: process_telemetry_data_def)
qed

lemma absent_from_get_current_alerts:
  assumes "store_inv s" "map_of (current_alerts s) c = None"
  shows "c \<notin> set (map component (deref s (get_current_alerts s)))"
proof -
  have "set (map component (deref s (get_current_alerts s))) = set (map fst (current_alerts s))"
    using arg_cong [OF get_current_alerts_components [OF assms(1)], of set_mset]
    by (simp only: set_mset_mset)
  moreover have "c \<notin> set (map fst (current_alerts s))"
    using assms(2) by (simp add: map_of_eq_None_iff)
  ultimately show ?thesis by simp
qed

lemma below_low_threshold:
  assumes "low (alert_thresholds cfg) \<le> medium (alert_thresholds cfg)"
    "medium (alert_thresholds cfg) \<le> high (alert_thresholds cfg)"
    "p < low (alert_thresholds cfg)"
  shows "determine_alert_level cfg p = None"
  using assms by (simp add: determine_alert_level_def Let_def)

text \<open>
  Claim C8. In every state the system can reach by telemetry evaluations (and snoozes and
  configuration changes) the list of current alerts has at most one alert per component; and
  when an evaluation gives a component a probability that qualifies for no level (which,
  for ordered thresholds, is a probability below the low threshold), the component has no
  alert in the next list of current alerts.
\<close>

theorem current_alerts_unique_and_recovery:
  assumes "reachable ext s"
  shows "distinct (map component (deref s (get_current_alerts s)))
   \<and> (distinct (map fst tel) \<and> (c, d) \<in> set tel
        \<and> models s c = Some model \<and> scalers s c = Some scaler
        \<and> scaler d = Some fs \<and> model fs = Some p
        \<and> determine_alert_level (alert_config s) p = None \<longrightarrow>
      c \<notin> set (map component
                 (deref (fst (process_telemetry_data ext s tel t))
                    (get_current_alerts (fst (process_telemetry_data ext s tel t))))))
   \<and> (low (alert_thresholds (alert_config s)) \<le> medium (alert_thresholds (alert_config s))
        \<and> medium (alert_thresholds (alert_config s)) \<le> high (alert_thresholds (alert_config s))
        \<and> p < low (alert_thresholds (alert_config s)) \<longrightarrow>
      determine_alert_level (alert_config s) p = None)"
proof -
  have inv: "store_inv s" by (rule reachable_store_inv [OF assms])
  have inv': "store_inv (fst (process_telemetry_data ext s tel t))"
    by (rule store_inv_process_telemetry_data [OF inv])
  have "distinct (map component (deref s (get_current_alerts s)))"
    by (rule get_current_alerts_distinct [OF inv])
  moreover have "c \<notin> set (map component
                 (deref (fst (process_telemetry_data ext s tel t))
                    (get_current_alerts (fst (process_telemetry_data ext s tel t)))))"
    if "distinct (map fst tel)" "(c, d) \<in> set tel"
      "models s c = Some model" "scalers s c = Some scaler"
      "scaler d = Some fs" "model fs = Some p"
      "determine_alert_level (alert_config s) p = None"
    by (rule absent_from_get_current_alerts [OF inv'])
      (rule process_telemetry_data_recover [OF that])
  ultimately show ?thesis
    using below_low_threshold [of "alert_config s" p] by blast
qed

lemma example_alerting_eval:
  "example_alerting =
     \<lparr> models = [''engine'' \<mapsto> example_model], scalers = [''engine'' \<mapsto> example_scaler],
       alert_config = default_alert_config,
       objects = [\<lparr> component = ''engine'', probability = 0.75, alert_level = High,
                    priority = 5, timestamp = 0,
                    message = generate_alert_message example_externals ''engine'' High 0.75,
                    snoozed_until = None \<rparr>],
       current_alerts = [(''engine'', 0)],
       alert_history = [0] \<rparr>"
  by (simp add: example_alerting_def example_system_def init_vehicle_alert_system_def
      process_telemetry_data_def process_component_def example_model_def example_scaler_def
      determine_alert_level_def default_alert_config_def sorted_alerts_def Let_def)

lemma example_alerting_reachable: "reachable example_externals example_alerting"
  unfolding example_alerting_def example_system_def
  by (intro reach_process reach_init)

theorem current_alerts_unique_and_recovery_witness:
  "reachable example_externals example_alerting
   \<and> map component (deref example_alerting (get_current_alerts example_alerting)) = [''engine'']
   \<and> ''engine'' \<notin> set (map component
        (deref (fst (process_telemetry_data example_externals example_alerting
                       [(''engine'', [(''risk'', 0.1)])] 1000))
           (get_current_alerts
              (fst (process_telemetry_data example_externals example_alerting
                      [(''engine'', [(''risk'', 0.1)])] 1000)))))"
proof -
  have a: "map component (deref example_alerting (get_current_alerts example_alerting))
      = [''engine'']"
    by (simp add: example_alerting_eval deref_def get_current_alerts_def sorted_alerts_def)
  have b: "models example_alerting ''engine'' = Some example_model"
    "scalers example_alerting ''engine'' = Some example_scaler"
    "example_scaler [(''risk'', 0.1)] = Some [0.1]"
    "example_model [0.1] = Some 0.1"
    "determine_alert_level (alert_config example_alerting) 0.1 = None"
    by (simp_all add: example_alerting_eval example_scaler_def example_model_def
        determine_alert_level_def default_alert_config_def)
  show ?thesis
    using current_alerts_unique_and_recovery [OF example_alerting_reachable,
        of "[(''engine'', [(''risk'', 0.1)])]" "''engine''" "[(''risk'', 0.1)]"
           example_model example_scaler "[0.1]" "0.1" 1000]
      a b example_alerting_reachable
    by simp
qed

section \<open>Snoozing and the history\<close>

text \<open>
  Claim C4. The claim is that the history holds copies, so that snoozing the current alert
  of a component changes no history entry. The code appends the alert object itself: after
  one evaluation that raises an engine alert, the history entry has no \<open>snoozed_until\<close>;
  after \<^verbatim>\<open>snooze_alert('engine')\<close> the same history entry has one.
\<close>

theorem snooze_alert_changes_history_entry:
  "alert_history example_alerting = [0]
   \<and> map snoozed_until (deref example_alerting (alert_history example_alerting)) = [None]
   \<and> snd (snooze_alert example_alerting ''engine'' 1000) = True
   \<and> alert_history (fst (snooze_alert example_alerting ''engine'' 1000)) = [0]
   \<and> map snoozed_until
        (deref (fst (snooze_alert example_alerting ''engine'' 1000))
           (alert_history (fst (snooze_alert example_alerting ''engine'' 1000))))
       = [Some 3600001000]"
  by (simp add: example_alerting_eval snooze_alert_def deref_def default_alert_config_def
      timedelta_minutes_def Let_def)

section \<open>Admission: no prior record, escalation and cooldown\<close>

text \<open>
  Claim C3, amended. For an alert of a component that has no notification record,
  \<^verbatim>\<open>_should_send_alert\<close> returns True whatever the level and the cooldown configuration,
  unless the quiet-hours test, which comes first, suppresses it: in quiet hours it returns
  True only for a High alert with the override enabled.
\<close>

theorem should_send_alert_no_record:
  "notification_history m c = None \<Longrightarrow>
     should_send_alert m c lvl t q
       = (\<not> q \<or> (lvl = High
                  \<and> override_quiet_hours_for_high_priority
                      (mobile_notification_settings (config m))))"
  by (auto simp: should_send_alert_def)

theorem should_send_alert_no_record_witness:
  "notification_history (init_mobile_alert_system default_mobile_config) ''engine'' = None
   \<and> should_send_alert (init_mobile_alert_system default_mobile_config) ''engine'' Low
        36000000000 False"
  using should_send_alert_no_record
    [of "init_mobile_alert_system default_mobile_config" "''engine''" Low 36000000000 False]
  by (simp add: init_mobile_alert_system_def)

text \<open>
  The claim as stated fails: at 23 o'clock, in the quiet hours of the default configuration,
  a Low alert of a component without a record is not sent.
\<close>

theorem no_record_suppressed_in_quiet_hours:
  "notification_history (init_mobile_alert_system default_mobile_config) ''engine'' = None
   \<and> check_quiet_hours (init_mobile_alert_system default_mobile_config) 82800000000
   \<and> \<not> should_send_alert (init_mobile_alert_system default_mobile_config) ''engine'' Low
         82800000000
         (check_quiet_hours (init_mobile_alert_system default_mobile_config) 82800000000)"
  by (simp add: init_mobile_alert_system_def default_mobile_config_def should_send_alert_def
      check_quiet_hours_def hour_def Let_def)

text \<open>
  Claim C6. For an alert of a component that has a notification record and that the
  quiet-hours test lets through: when the level of the alert is strictly above the level last
  sent (Low < Medium < High) the alert is sent whatever the time; otherwise it is sent
  exactly when the current time has reached the time of the last send plus the cooldown of
  the alert's level. With a medium cooldown of 120 minutes, a Medium alert after a Medium
  send is suppressed 60 minutes and sent 121 minutes after that send.
\<close>

theorem should_send_alert_escalation_cooldown:
  assumes "notification_history m c = Some r"
    and "\<not> q \<or> (lvl = High
            \<and> override_quiet_hours_for_high_priority (mobile_notification_settings (config m)))"
  shows "should_send_alert m c lvl t q
     = (if level_rank (Some (sent_level r)) < level_rank (Some lvl) then True
        else t \<ge> sent_time r + timedelta_minutes
               (case lvl of
                  High \<Rightarrow> high_priority_cooldown_minutes (mobile_notification_settings (config m))
                | Medium \<Rightarrow>
                    medium_priority_cooldown_minutes (mobile_notification_settings (config m))
                | Low \<Rightarrow> low_priority_cooldown_minutes (mobile_notification_settings (config m))))
   \<and> (medium_priority_cooldown_minutes (mobile_notification_settings (config m)) = 120
        \<and> sent_level r = Medium \<longrightarrow>
      \<not> should_send_alert m c Medium (sent_time r + timedelta_minutes 60) False
      \<and> should_send_alert m c Medium (sent_time r + timedelta_minutes 121) False)"
proof -
  have "should_send_alert m c lvl t q
     = (if level_rank (Some (sent_level r)) < level_rank (Some lvl) then True
        else t \<ge> sent_time r + timedelta_minutes
               (case lvl of
                  High \<Rightarrow> high_priority_cooldown_minutes (mobile_notification_settings (config m))
                | Medium \<Rightarrow>
                    medium_priority_cooldown_minutes (mobile_notification_settings (config m))
                | Low \<Rightarrow> low_priority_cooldown_minutes (mobile_notification_settings (config m))))"
    using assms
    by (cases lvl; cases "sent_level r") (auto simp: should_send_alert_def Let_def)
  moreover have "\<not> should_send_alert m c Medium (sent_time r + timedelta_minutes 60) False
      \<and> should_send_alert m c Medium (sent_time r + timedelta_minutes 121) False"
    if "medium_priority_cooldown_minutes (mobile_notification_settings (config m)) = 120"
      "sent_level r = Medium"
    using assms(1) that by (simp add: should_send_alert_def Let_def timedelta_minutes_def)
  ultimately show ?thesis by blast
qed

theorem should_send_alert_escalation_cooldown_witness:
  "notification_history example_mobile_notified ''engine''
     = Some \<lparr> sent_level = Medium, sent_time = 36000000000,
              sent_message = ''Service recommended.'' \<rparr>
   \<and> \<not> should_send_alert example_mobile_notified ''engine'' Medium
         (36000000000 + timedelta_minutes 60) False
   \<and> should_send_alert example_mobile_notified ''engine'' Medium
         (36000000000 + timedelta_minutes 121) False
   \<and> should_send_alert example_mobile_notified ''engine'' High 36000000000 False"
proof -
  have h: "notification_history example_mobile_notified ''engine''
     = Some \<lparr> sent_level = Medium, sent_time = 36000000000,
              sent_message = ''Service recommended.'' \<rparr>"
    by (simp add: example_mobile_notified_def)
  have c: "medium_priority_cooldown_minutes
             (mobile_notification_settings (config example_mobile_notified)) = 120"
    by (simp add: example_mobile_notified_def init_mobile_alert_system_def
        default_mobile_config_def)
  show ?thesis
    using should_send_alert_escalation_cooldown [OF h, of False High 36000000000]
      should_send_alert_escalation_cooldown [OF h, of False Medium 0] h c
    by simp
qed

section \<open>Quiet hours\<close>

lemma mod_24_small:
  fixes x :: int
  assumes "- 24 < x" "x < 24"
  shows "x mod 24 = (if 0 \<le> x then x else x + 24)"
proof (cases "0 \<le> x")
  case True
  then show ?thesis using assms by simp
next
  case False
  have "x mod 24 = (x + 24) mod 24" by simp
  also have "\<dots> = x + 24" using False assms by (intro mod_pos_pos_trivial) simp_all
  finally show ?thesis using False by simp
qed

lemma window_mod_24:
  fixes h qs qe :: int
  assumes "0 \<le> h" "h < 24" "0 \<le> qs" "qs < 24" "0 \<le> qe" "qe < 24"
  shows "(if qs > qe then h \<ge> qs \<or> h < qe else h \<ge> qs \<and> h < qe)
       \<longleftrightarrow> (h - qs) mod 24 < (qe - qs) mod 24"
proof -
  have a: "(h - qs) mod 24 = (if 0 \<le> h - qs then h - qs else h - qs + 24)"
    using assms by (intro mod_24_small) simp_all
  have b: "(qe - qs) mod 24 = (if 0 \<le> qe - qs then qe - qs else qe - qs + 24)"
    using assms by (intro mod_24_small) simp_all
  show ?thesis unfolding a b using assms by auto
qed

lemma hour_range: "0 \<le> hour t \<and> hour t < 24"
  by (simp add: hour_def)

text \<open>
  Claim C7, amended. When \<^verbatim>\<open>respect_quiet_hours\<close> is enabled, the current time is in quiet
  hours exactly when its hour lies in the half-open window from \<open>quiet_hours_start\<close> to
  \<open>quiet_hours_end\<close>, which wraps across midnight when the start is greater than the end
  (for hours of the day: when the hour is fewer hours after the start than the end is);
  with start 22 and end 7 the hours 23 and 3 are in quiet hours and the hour 10 is not.
  When \<^verbatim>\<open>respect_quiet_hours\<close> is disabled no time is in quiet hours. In quiet hours an
  alert is suppressed unless its level is High and the override is enabled, and then the
  result is that of the cooldown check.
\<close>

theorem check_quiet_hours_window:
  "(let ns = mobile_notification_settings (config m);
        qs = quiet_hours_start ns; qe = quiet_hours_end ns
    in (check_quiet_hours m t \<longleftrightarrow>
          respect_quiet_hours ns
          \<and> (if qs > qe then hour t \<ge> qs \<or> hour t < qe else qs \<le> hour t \<and> hour t < qe))
     \<and> (respect_quiet_hours ns \<and> 0 \<le> qs \<and> qs < 24 \<and> 0 \<le> qe \<and> qe < 24 \<longrightarrow>
          (check_quiet_hours m t \<longleftrightarrow> (hour t - qs) mod 24 < (qe - qs) mod 24))
     \<and> (respect_quiet_hours ns \<and> qs = 22 \<and> qe = 7 \<longrightarrow>
          (hour t = 23 \<longrightarrow> check_quiet_hours m t)
          \<and> (hour t = 3 \<longrightarrow> check_quiet_hours m t)
          \<and> (hour t = 10 \<longrightarrow> \<not> check_quiet_hours m t))
     \<and> (should_send_alert m c lvl t True
          \<longleftrightarrow> lvl = High \<and> override_quiet_hours_for_high_priority ns
              \<and> should_send_alert m c lvl t False))"
proof -
  let ?ns = "mobile_notification_settings (config m)"
  let ?qs = "quiet_hours_start ?ns"
  let ?qe = "quiet_hours_end ?ns"
  have a: "check_quiet_hours m t \<longleftrightarrow>
          respect_quiet_hours ?ns
          \<and> (if ?qs > ?qe then hour t \<ge> ?qs \<or> hour t < ?qe else ?qs \<le> hour t \<and> hour t < ?qe)"
    by (simp add: check_quiet_hours_def Let_def)
  have b: "check_quiet_hours m t \<longleftrightarrow> (hour t - ?qs) mod 24 < (?qe - ?qs) mod 24"
    if "respect_quiet_hours ?ns \<and> 0 \<le> ?qs \<and> ?qs < 24 \<and> 0 \<le> ?qe \<and> ?qe < 24"
  proof -
    have "(if ?qs > ?qe then hour t \<ge> ?qs \<or> hour t < ?qe else hour t \<ge> ?qs \<and> hour t < ?qe)
       \<longleftrightarrow> (hour t - ?qs) mod 24 < (?qe - ?qs) mod 24"
      using that hour_range [of t] by (intro window_mod_24) simp_all
    then show ?thesis using that a by simp
  qed
  have c: "(hour t = 23 \<longrightarrow> check_quiet_hours m t)
          \<and> (hour t = 3 \<longrightarrow> check_quiet_hours m t)
          \<and> (hour t = 10 \<longrightarrow> \<not> check_quiet_hours m t)"
    if "respect_quiet_hours ?ns \<and> ?qs = 22 \<and> ?qe = 7"
    using that by (simp add: a)
  have d: "should_send_alert m c lvl t True
          \<longleftrightarrow> lvl = High \<and> override_quiet_hours_for_high_priority ?ns
              \<and> should_send_alert m c lvl t False"
    by (auto simp: should_send_alert_def)
  show ?thesis unfolding Let_def using a b c d by blast
qed

theorem check_quiet_hours_window_witness:
  "respect_quiet_hours
     (mobile_notification_settings (config (init_mobile_alert_system default_mobile_config)))
   \<and> hour 82800000000 = 23 \<and> hour 10800000000 = 3 \<and> hour 36000000000 = 10
   \<and> check_quiet_hours (init_mobile_alert_system default_mobile_config) 82800000000
   \<and> check_quiet_hours (init_mobile_alert_system default_mobile_config) 10800000000
   \<and> \<not> check_quiet_hours (init_mobile_alert_system default_mobile_config) 36000000000"
proof -
  have h: "hour 82800000000 = 23" "hour 10800000000 = 3" "hour 36000000000 = 10"
    by (simp_all add: hour_def)
  have cfg: "respect_quiet_hours
       (mobile_notification_settings (config (init_mobile_alert_system default_mobile_config)))"
    "quiet_hours_start
       (mobile_notification_settings (config (init_mobile_alert_system default_mobile_config)))
       = 22"
    "quiet_hours_end
       (mobile_notification_settings (config (init_mobile_alert_system default_mobile_config)))
       = 7"
    by (simp_all add: init_mobile_alert_system_def default_mobile_config_def)
  show ?thesis
    using check_quiet_hours_window
        [of "init_mobile_alert_system default_mobile_config" 82800000000]
      check_quiet_hours_window
        [of "init_mobile_alert_system default_mobile_config" 10800000000]
      check_quiet_hours_window
        [of "init_mobile_alert_system default_mobile_config" 36000000000]
      h cfg
    by (simp add: Let_def)
qed

text \<open>
  The claim as stated fails: with \<^verbatim>\<open>respect_quiet_hours\<close> disabled and the window from 22
  to 7, the hour 23 lies in the window and is not in quiet hours.
\<close>

theorem quiet_hours_not_respected:
  "quiet_hours_start (mobile_notification_settings (config example_mobile_no_quiet_hours)) = 22
   \<and> quiet_hours_end (mobile_notification_settings (config example_mobile_no_quiet_hours)) = 7
   \<and> hour 82800000000 = 23
   \<and> \<not> check_quiet_hours example_mobile_no_quiet_hours 82800000000"
  by (simp add: example_mobile_no_quiet_hours_def init_mobile_alert_system_def
      default_mobile_config_def check_quiet_hours_def hour_def Let_def)

section \<open>Sending and recording\<close>

lemma should_send_alert_cong:
  "config m' = config m \<Longrightarrow> notification_history m' c = notification_history m c \<Longrightarrow>
     should_send_alert m' c lvl t q = should_send_alert m c lvl t q"
  by (simp add: should_send_alert_def Let_def split: option.splits)

lemma process_alert_config: "config (fst (process_alert ext t q acc a)) = config (fst acc)"
  by (cases acc) (simp add: process_alert_def)

lemma process_alert_history:
  "notification_history (fst (process_alert ext t q acc a)) c =
     (if component a = c \<and> should_send_alert (fst acc) c (alert_level a) t q
      then Some \<lparr> sent_level = alert_level a, sent_time = t, sent_message = message a \<rparr>
      else notification_history (fst acc) c)"
  by (cases acc) (auto simp: process_alert_def)

lemma foldl_process_alert_history:
  "distinct (map component alerts) \<Longrightarrow>
     notification_history (fst (foldl (process_alert ext t q) acc alerts)) c =
       (case find (\<lambda>a. component a = c) alerts of
          Some a \<Rightarrow>
            if should_send_alert (fst acc) c (alert_level a) t q
            then Some \<lparr> sent_level = alert_level a, sent_time = t, sent_message = message a \<rparr>
            else notification_history (fst acc) c
        | None \<Rightarrow> notification_history (fst acc) c)"
proof (induction alerts arbitrary: acc)
  case Nil
  then show ?case by simp
next
  case (Cons a alerts)
  let ?acc = "process_alert ext t q acc a"
  have IH: "notification_history (fst (foldl (process_alert ext t q) ?acc alerts)) c =
       (case find (\<lambda>a. component a = c) alerts of
          Some a \<Rightarrow>
            if should_send_alert (fst ?acc) c (alert_level a) t q
            then Some \<lparr> sent_level = alert_level a, sent_time = t, sent_message = message a \<rparr>
            else notification_history (fst ?acc) c
        | None \<Rightarrow> notification_history (fst ?acc) c)"
    using Cons.IH [of ?acc] Cons.prems by simp
  show ?case
  proof (cases "component a = c")
    case True
    then have "c \<notin> component ` set alerts" using Cons.prems by auto
    then have "find (\<lambda>a. component a = c) alerts = None"
      by (auto simp: find_None_iff)
    then show ?thesis using True IH by (simp add: process_alert_history)
  next
    case False
    then have h: "notification_history (fst ?acc) c = notification_history (fst acc) c"
      by (simp add: process_alert_history)
    have "should_send_alert (fst ?acc) c lvl t q = should_send_alert (fst acc) c lvl t q" for lvl
      by (rule should_send_alert_cong [OF process_alert_config h])
    then show ?thesis using False IH h by (simp split: option.splits)
  qed
qed

text \<open>
  Claim C1, amended. \<^verbatim>\<open>_process_alerts\<close> writes the record \<open>{level, now, message}\<close> of a
  component for every alert it admits, after the send and whatever the send did: the record
  after a cycle over alerts of distinct components depends on the admission only, not on any
  channel. The record of a component is left untouched only when the component has no
  alert in the cycle or its alert is not admitted.
\<close>

theorem process_alerts_records_every_admitted:
  assumes "distinct (map component alerts)"
  shows "notification_history (fst (process_alerts ext m alerts t)) c =
       (case find (\<lambda>a. component a = c) alerts of
          Some a \<Rightarrow>
            if should_send_alert m c (alert_level a) t (check_quiet_hours m t)
            then Some \<lparr> sent_level = alert_level a, sent_time = t, sent_message = message a \<rparr>
            else notification_history m c
        | None \<Rightarrow> notification_history m c)"
  using foldl_process_alert_history [OF assms, of ext t "check_quiet_hours m t" "(m, [])" c]
  by (simp add: process_alerts_def split: option.splits)

theorem process_alerts_records_every_admitted_witness:
  "distinct (map component [example_alert])
   \<and> success (send_notification example_externals (init_mobile_alert_system default_mobile_config)
        example_alert) = None
   \<and> notification_history
        (fst (process_alerts example_externals (init_mobile_alert_system default_mobile_config)
                [example_alert] 36000000000)) ''engine''
       = Some \<lparr> sent_level = Medium, sent_time = 36000000000,
                sent_message = ''Service recommended.'' \<rparr>"
  using process_alerts_records_every_admitted
    [of "[example_alert]" example_externals "init_mobile_alert_system default_mobile_config"
        36000000000 "''engine''"]
  by (simp add: example_alert_def init_mobile_alert_system_def default_mobile_config_def
      should_send_alert_def check_quiet_hours_def hour_def send_notification_def Let_def)

text \<open>
  The claim as stated fails: with SMS as the only enabled channel and its settings empty,
  the alert is admitted, the one send fails, and the record of the engine, absent before, is
  written all the same.
\<close>

theorem record_updated_after_failed_send:
  "should_send_alert example_mobile_sms_unconfigured ''engine'' Medium 36000000000
     (check_quiet_hours example_mobile_sms_unconfigured 36000000000)
   \<and> snd (process_alerts example_externals example_mobile_sms_unconfigured
             [example_alert] 36000000000)
       = [\<lparr> attempted = [(Sms, False)], success = Some False \<rparr>]
   \<and> notification_history example_mobile_sms_unconfigured ''engine'' = None
   \<and> notification_history (fst (process_alerts example_externals example_mobile_sms_unconfigured
                        [example_alert] 36000000000)) ''engine''
       = Some \<lparr> sent_level = Medium, sent_time = 36000000000,
                sent_message = ''Service recommended.'' \<rparr>"
  by (simp add: process_alerts_def process_alert_def should_send_alert_def check_quiet_hours_def
      example_mobile_sms_unconfigured_def init_mobile_alert_system_def default_mobile_config_def
      example_alert_def send_notification_def send_sms_notification_def hour_def Let_def)

text \<open>
  What \<^verbatim>\<open>_send_notification\<close> does keep of the channel fan-out: it goes through the
  channels in the fixed order push, SMS, email and calls enabled channels only (push when
  \<^verbatim>\<open>use_firebase\<close> is set and Firebase is initialised); an enabled channel is called
  whenever no channel called before it has succeeded, so the failure of a channel never
  keeps a later one from being called; and \<^verbatim>\<open>success\<close> is true exactly when one of the
  channels called has succeeded.
\<close>

lemma send_notification_channels:
  "(let r = send_notification ext m a;
        services = notification_services (config m);
        title = format_notification_title ext a;
        msg = format_notification_message a
    in map fst (attempted r) = filter (\<lambda>ch. ch \<in> fst ` set (attempted r)) [Push, Sms, Email]
     \<and> (Push \<in> fst ` set (attempted r) \<longrightarrow> use_firebase services \<and> firebase_initialized m)
     \<and> (Sms \<in> fst ` set (attempted r) \<longrightarrow> use_sms services)
     \<and> (Email \<in> fst ` set (attempted r) \<longrightarrow> use_email services)
     \<and> (use_firebase services \<and> firebase_initialized m \<longrightarrow>
          (Push, send_firebase_notification ext m title msg a) \<in> set (attempted r))
     \<and> (use_sms services \<and> (Push, True) \<notin> set (attempted r) \<longrightarrow>
          (Sms, send_sms_notification m msg a) \<in> set (attempted r))
     \<and> (use_email services \<and> (Push, True) \<notin> set (attempted r)
          \<and> (Sms, True) \<notin> set (attempted r) \<longrightarrow>
          (Email, send_email_notification m title msg a) \<in> set (attempted r))
     \<and> (success r = Some True \<longleftrightarrow> (\<exists>ch. (ch, True) \<in> set (attempted r))))"
  unfolding Let_def send_notification_def
  by (cases "use_firebase (notification_services (config m))";
      cases "firebase_initialized m";
      cases "use_sms (notification_services (config m))";
      cases "use_email (notification_services (config m))";
      cases "send_firebase_notification ext m (format_notification_title ext a)
               (format_notification_message a) a";
      cases "send_sms_notification m (format_notification_message a) a";
      cases "send_email_notification m (format_notification_title ext a)
               (format_notification_message a) a";
      simp; blast?)

lemma send_notification_channels_example:
  "use_sms (notification_services (config example_mobile_sms_fails))
   \<and> use_email (notification_services (config example_mobile_sms_fails))
   \<and> attempted (send_notification example_externals example_mobile_sms_fails example_alert)
       = [(Sms, False), (Email, True)]
   \<and> success (send_notification example_externals example_mobile_sms_fails example_alert)
       = Some True"
proof -
  have e: "send_sms_notification example_mobile_sms_fails
             (format_notification_message example_alert) example_alert = False"
    "send_email_notification example_mobile_sms_fails
       (format_notification_title example_externals example_alert)
       (format_notification_message example_alert) example_alert = True"
    "use_sms (notification_services (config example_mobile_sms_fails))"
    "use_email (notification_services (config example_mobile_sms_fails))"
    "\<not> use_firebase (notification_services (config example_mobile_sms_fails))"
    by (simp_all add: example_mobile_sms_fails_def example_mobile_sms_email_def
        default_mobile_config_def send_sms_notification_def send_email_notification_def
        List.map_filter_def Let_def)
  have r: "send_notification example_externals example_mobile_sms_fails example_alert
      = \<lparr> attempted = [(Sms, False), (Email, True)], success = Some True \<rparr>"
    using e by (simp add: send_notification_def Let_def)
  show ?thesis
    using send_notification_channels [of example_externals example_mobile_sms_fails example_alert]
    unfolding r Let_def using e by simp
qed

text \<open>
  Claim C2. Every enabled channel is to be attempted, in the order push, SMS, email, with
  success when at least one of them succeeds. The code, under its comment
  \<^verbatim>\<open>Send through enabled channels\<close>, has one \<^verbatim>\<open>if\<close> block for each enabled channel,
  but writes \<^verbatim>\<open>success = success or self._send_email_notification(...)\<close>, which does not
  make the call once \<^verbatim>\<open>success\<close> is true: with SMS and email both enabled and both
  working, the SMS succeeds and the email channel, which would have succeeded, is never
  called.
\<close>

theorem email_skipped_after_sms_success:
  "use_sms (notification_services (config example_mobile_sms_email))
   \<and> use_email (notification_services (config example_mobile_sms_email))
   \<and> send_email_notification example_mobile_sms_email
        (format_notification_title example_externals example_alert)
        (format_notification_message example_alert) example_alert
   \<and> attempted (send_notification example_externals example_mobile_sms_email example_alert)
       = [(Sms, True)]"
  by (simp add: example_mobile_sms_email_def default_mobile_config_def send_notification_def
      send_sms_notification_def send_email_notification_def Let_def List.map_filter_def)

end
